theory Spec2Isabelle
  imports Main "HOL-Library.Char_ord"
begin

section \<open>Rate limiter (core/middleware: class RateLimiter)\<close>

text \<open>
  The limiter keeps a \<open>Map<string, number[]>\<close> of request times per key, together with the
  two constructor arguments. Times are the integer milliseconds of \<open>Date.now()\<close>; the
  current time is an argument of \<open>check\<close>. The configured \<open>max\<close> and \<open>windowMs\<close> are
  integers (fractional numbers and NaN are not represented).
\<close>

record RateLimiter =
  requests :: "string \<rightharpoonup> int list"
  max_req :: int
  windowMs :: int

definition new_RateLimiter :: "int \<Rightarrow> int \<Rightarrow> RateLimiter" where
  "new_RateLimiter m w = \<lparr>requests = Map.empty, max_req = m, windowMs = w\<rparr>"

text \<open>\<open>this.requests.get(key) || []\<close>: an array is always truthy, so only a missing key
  gives the empty list.\<close>

definition stored :: "RateLimiter \<Rightarrow> string \<Rightarrow> int list" where
  "stored rl key = (case requests rl key of None \<Rightarrow> [] | Some r \<Rightarrow> r)"

definition check :: "int \<Rightarrow> string \<Rightarrow> RateLimiter \<Rightarrow> bool \<times> RateLimiter" where
  "check now key rl =
     (let validRequests = filter (\<lambda>time. now - time < windowMs rl) (stored rl key)
      in if int (length validRequests) \<ge> max_req rl then (False, rl)
         else (True, rl\<lparr>requests := (requests rl)(key \<mapsto> validRequests @ [now])\<rparr>))"

definition reset :: "string \<Rightarrow> RateLimiter \<Rightarrow> RateLimiter" where
  "reset key rl = rl\<lparr>requests := (requests rl)(key := None)\<rparr>"

text \<open>A sequence of calls on one limiter object, each \<open>check\<close> with the time at which it runs.\<close>

datatype limiter_op = Check int string | Reset string

fun apply_op :: "RateLimiter \<Rightarrow> limiter_op \<Rightarrow> RateLimiter" where
  "apply_op rl (Check now key) = snd (check now key rl)"
| "apply_op rl (Reset key) = reset key rl"

definition run_ops :: "limiter_op list \<Rightarrow> RateLimiter \<Rightarrow> RateLimiter" where
  "run_ops ops rl = foldl apply_op rl ops"

text \<open>Successive checks of one key at the given times; the answers in call order.\<close>

fun check_seq :: "int list \<Rightarrow> string \<Rightarrow> RateLimiter \<Rightarrow> bool list" where
  "check_seq [] key rl = []"
| "check_seq (now # ts) key rl = (case check now key rl of (ok, rl') \<Rightarrow> ok # check_seq ts key rl')"

text \<open>
  The check as the specification words it: entries older than \<open>now - windowLength\<close> are
  discarded, that is, an entry \<open>t\<close> stays unless \<open>t < now - windowLength\<close>.
\<close>

definition spec_check :: "int \<Rightarrow> string \<Rightarrow> RateLimiter \<Rightarrow> bool \<times> RateLimiter" where
  "spec_check now key rl =
     (let remaining = filter (\<lambda>t. \<not> t < now - windowMs rl) (stored rl key)
      in if int (length remaining) < max_req rl
         then (True, rl\<lparr>requests := (requests rl)(key \<mapsto> remaining @ [now])\<rparr>)
         else (False, rl))"

definition bounded :: "RateLimiter \<Rightarrow> bool" where
  "bounded rl \<longleftrightarrow> (\<forall>key ts. requests rl key = Some ts \<longrightarrow> int (length ts) \<le> max_req rl)"

section \<open>JavaScript values\<close>

text \<open>
  The values that flow through the server: tool arguments, hook results, handler outputs
  and the schema documents produced for the catalog. An object is the list of its own
  properties in enumeration order. Numbers are integers here; fractional numbers, NaN,
  BigInt, symbols and functions are not represented.
\<close>

datatype jsval =
    Undefined
  | Null
  | Bool bool
  | Num int
  | Str string
  | Arr "jsval list"
  | Obj "(string \<times> jsval) list"

text \<open>Truthiness, as used by \<open>&&\<close>, \<open>||\<close>, \<open>!\<close> and \<open>if\<close>.\<close>

fun truthy :: "jsval \<Rightarrow> bool" where
  "truthy Undefined = False"
| "truthy Null = False"
| "truthy (Bool b) = b"
| "truthy (Num n) = (n \<noteq> 0)"
| "truthy (Str s) = (s \<noteq> [])"
| "truthy (Arr xs) = True"
| "truthy (Obj kvs) = True"

text \<open>Property read \<open>v.k\<close> on a value that is neither null nor undefined: an own property of
  an object, \<open>undefined\<close> otherwise (inherited properties are not represented).\<close>

fun js_get :: "jsval \<Rightarrow> string \<Rightarrow> jsval" where
  "js_get (Obj kvs) k = (case map_of kvs k of Some v \<Rightarrow> v | None \<Rightarrow> Undefined)"
| "js_get v k = Undefined"

text \<open>Setting the own property \<open>k\<close> to \<open>v\<close>, as an object literal, a spread or a write
  \<open>o.k = v\<close> with an ordinary name does: an existing property keeps its place, a new one
  goes last.\<close>

fun obj_set :: "(string \<times> 'v) list \<Rightarrow> string \<Rightarrow> 'v \<Rightarrow> (string \<times> 'v) list" where
  "obj_set [] k v = [(k, v)]"
| "obj_set ((k', v') # kvs) k v = (if k' = k then (k, v) # kvs else (k', v') # obj_set kvs k v)"

text \<open>
  The write \<open>o[k] = v\<close> with a computed key, on an object created by \<open>{}\<close>. The name
  \<open>__proto__\<close> is an accessor inherited from \<open>Object.prototype\<close>: writing it replaces the
  prototype of \<open>o\<close> (when \<open>v\<close> is an object or null) or does nothing, and in neither case
  gives \<open>o\<close> an own property. Every other key sets an own property.
\<close>

definition obj_assign :: "(string \<times> 'v) list \<Rightarrow> string \<Rightarrow> 'v \<Rightarrow> (string \<times> 'v) list" where
  "obj_assign kvs k v = (if k = ''__proto__'' then kvs else obj_set kvs k v)"

text \<open>The own properties copied by a spread \<open>{...v}\<close>.\<close>

fun own_props :: "jsval \<Rightarrow> (string \<times> jsval) list" where
  "own_props (Obj kvs) = kvs"
| "own_props v = []"

text \<open>The members that JSON serialisation writes for an object: a property whose value is
  \<open>undefined\<close> is skipped.\<close>

definition JSON_members :: "jsval \<Rightarrow> (string \<times> jsval) list" where
  "JSON_members v = filter (\<lambda>(k, x). x \<noteq> Undefined) (own_props v)"

text \<open>Decimal digits of a natural number, as \<open>String(i)\<close> prints an array index.\<close>

function decimal :: "nat \<Rightarrow> string" where
  "decimal n =
     (if 10 \<le> n then decimal (n div 10) @ [''0123456789'' ! (n mod 10)]
      else [''0123456789'' ! n])"
  by pat_completeness auto
termination
  by (relation "measure id") auto

fun join :: "string \<Rightarrow> string list \<Rightarrow> string" where
  "join sep [] = []"
| "join sep [x] = x"
| "join sep (x # y # ys) = x @ sep @ join sep (y # ys)"

fun js_typeof :: "jsval \<Rightarrow> string" where
  "js_typeof Undefined = ''undefined''"
| "js_typeof Null = ''object''"
| "js_typeof (Bool b) = ''boolean''"
| "js_typeof (Num n) = ''number''"
| "js_typeof (Str s) = ''string''"
| "js_typeof (Arr xs) = ''object''"
| "js_typeof (Obj kvs) = ''object''"

section \<open>Schemas and their translation (core/tool: zodToJsonSchema)\<close>

text \<open>
  The schema classes that \<open>zodToJsonSchema\<close> tells apart with \<open>instanceof\<close>. An object
  schema carries its shape as \<open>Object.entries\<close> enumerates it. Every other class of the
  schema library (defaults, unions, records, effects, ...) is \<open>ZodOther\<close> with its
  \<open>typeName\<close>. String and number schemas carry their list of checks, of which the
  translation reads the kind and, for bounds, the value.
\<close>

datatype string_check = Email | Url | Uuid | StrMin int | StrMax int | StrOtherCheck string

datatype number_check = NumInt | NumMin int | NumMax int | NumOtherCheck string

datatype zod =
    ZodObject "(string \<times> zod) list"
  | ZodString "string_check list"
  | ZodNumber "number_check list"
  | ZodBoolean
  | ZodArray zod
  | ZodOptional zod
  | ZodNullable zod
  | ZodEnum "string list"
  | ZodLiteral jsval
  | ZodOther string

fun isZodOptional :: "zod \<Rightarrow> bool" where
  "isZodOptional (ZodOptional inner) = True"
| "isZodOptional z = False"

fun string_check_step :: "(string \<times> jsval) list \<Rightarrow> string_check \<Rightarrow> (string \<times> jsval) list" where
  "string_check_step result Email = obj_set result ''format'' (Str ''email'')"
| "string_check_step result Url = obj_set result ''format'' (Str ''uri'')"
| "string_check_step result Uuid = obj_set result ''format'' (Str ''uuid'')"
| "string_check_step result (StrMin v) = obj_set result ''minLength'' (Num v)"
| "string_check_step result (StrMax v) = obj_set result ''maxLength'' (Num v)"
| "string_check_step result (StrOtherCheck kind) = result"

fun number_check_step :: "(string \<times> jsval) list \<Rightarrow> number_check \<Rightarrow> (string \<times> jsval) list" where
  "number_check_step result NumInt = obj_set result ''type'' (Str ''integer'')"
| "number_check_step result (NumMin v) = obj_set result ''minimum'' (Num v)"
| "number_check_step result (NumMax v) = obj_set result ''maximum'' (Num v)"
| "number_check_step result (NumOtherCheck kind) = result"

text \<open>
  \<open>object_loop\<close> is the \<open>for (const [key, value] of Object.entries(shape))\<close> loop of the
  object branch, with the two accumulators \<open>properties\<close> and \<open>required\<close>; its body writes
  \<open>properties[key] = ...\<close> and pushes onto \<open>required\<close>.
\<close>

function zodToJsonSchema :: "zod \<Rightarrow> jsval"
  and object_loop ::
    "(string \<times> zod) list \<Rightarrow> (string \<times> jsval) list \<Rightarrow> string list
      \<Rightarrow> (string \<times> jsval) list \<times> string list"
where
  "zodToJsonSchema (ZodObject shape) =
     (case object_loop shape [] [] of
        (properties, required) \<Rightarrow>
          Obj [(''type'', Str ''object''),
               (''properties'', Obj properties),
               (''required'', if length required > 0 then Arr (map Str required) else Undefined)])"
| "zodToJsonSchema (ZodString checks) = Obj (foldl string_check_step [(''type'', Str ''string'')] checks)"
| "zodToJsonSchema (ZodNumber checks) = Obj (foldl number_check_step [(''type'', Str ''number'')] checks)"
| "zodToJsonSchema ZodBoolean = Obj [(''type'', Str ''boolean'')]"
| "zodToJsonSchema (ZodArray t) = Obj [(''type'', Str ''array''), (''items'', zodToJsonSchema t)]"
| "zodToJsonSchema (ZodOptional innerType) = zodToJsonSchema innerType"
| "zodToJsonSchema (ZodNullable innerType) =
     Obj (obj_set (own_props (zodToJsonSchema innerType)) ''nullable'' (Bool True))"
| "zodToJsonSchema (ZodEnum values) = Obj [(''type'', Str ''string''), (''enum'', Arr (map Str values))]"
| "zodToJsonSchema (ZodLiteral v) =
     (let literalType = js_typeof v
      in Obj [(''type'', Str (if literalType = ''string'' \<or> literalType = ''number''
                                  \<or> literalType = ''boolean'' then literalType else ''string'')),
              (''const'', v)])"
| "zodToJsonSchema (ZodOther typeName) = Obj [(''type'', Str ''object'')]"
| "object_loop [] properties required = (properties, required)"
| "object_loop ((key, v) # rest) properties required =
     object_loop rest (obj_assign properties key (zodToJsonSchema v))
       (if \<not> isZodOptional v then required @ [key] else required)"
  by pat_completeness auto
termination
  by (relation "measure (\<lambda>x. case x of Inl z \<Rightarrow> size z
        | Inr (shape, _, _) \<Rightarrow> size_list (size_prod (\<lambda>_. 0) size) shape)") auto

section \<open>Validation (core/tool: validateWithSchema, formatZodError)\<close>

text \<open>
  A thrown value, as the \<open>catch\<close> block of the request handler looks at it: an \<open>Error\<close>
  object (of any subclass) with its message string, or a value that is not an \<open>Error\<close>,
  given by what \<open>String()\<close> makes of it: \<open>Some s\<close>, or \<open>None\<close> for a value that has no
  string conversion (an object without prototype such as \<open>Object.create(null)\<close>, an object
  whose \<open>toString\<close> throws), where \<open>String()\<close> itself throws a \<open>TypeError\<close>.
\<close>

datatype fault = JsError string | Thrown "string option"

text \<open>\<open>error instanceof Error ? error.message : String(error)\<close>: the message, or the
  exception thrown while computing it.\<close>

fun fault_message :: "fault \<Rightarrow> fault + string" where
  "fault_message (JsError m) = Inr m"
| "fault_message (Thrown (Some s)) = Inr s"
| "fault_message (Thrown None) = Inl (JsError ''Cannot convert object to primitive value'')"

datatype path_key = Key string | Index nat

record ZodIssue =
  path :: "path_key list"
  message :: string

text \<open>
  \<open>schema.parse(data)\<close> belongs to the schema library, so it is a parameter of the model:
  it returns the parsed value, throws a \<open>ZodError\<close> with its issues, or throws something
  that is not a \<open>ZodError\<close> (a refinement or transform of the schema that throws, an
  asynchronous refinement met by the synchronous parse).
\<close>

datatype parse_outcome = Parsed jsval | ThrewZodError "ZodIssue list" | Threw fault

type_synonym zod_parse = "zod \<Rightarrow> jsval \<Rightarrow> parse_outcome"

datatype validation = Success jsval | Failure "ZodIssue list"

text \<open>\<open>Inl\<close> is the exception that leaves \<open>validateWithSchema\<close> (\<open>throw error\<close>).\<close>

definition validateWithSchema :: "zod_parse \<Rightarrow> zod \<Rightarrow> jsval \<Rightarrow> fault + validation" where
  "validateWithSchema parse schema data =
     (case parse schema data of
        Parsed validated \<Rightarrow> Inr (Success validated)
      | ThrewZodError errors \<Rightarrow> Inr (Failure errors)
      | Threw error \<Rightarrow> Inl error)"

fun path_key_String :: "path_key \<Rightarrow> string" where
  "path_key_String (Key k) = k"
| "path_key_String (Index i) = decimal i"

definition formatZodError :: "ZodIssue list \<Rightarrow> string" where
  "formatZodError issues =
     join '', '' (map (\<lambda>issue. join ''.'' (map path_key_String (path issue)) @ '': '' @ message issue) issues)"

section \<open>Tools and the registry (core/server: createMCPServer)\<close>

text \<open>
  The context handed to hooks and handlers. The pipeline only forwards the capability
  handles (http, db, logger, env), so the record keeps the request metadata: the request
  id and the time of creation.
\<close>

record MCPContext =
  request :: "(string \<times> int) option"

definition createContext :: "int \<Rightarrow> string option \<Rightarrow> MCPContext" where
  "createContext now requestId =
     \<lparr>request = (case requestId of
                   Some rid \<Rightarrow> if rid \<noteq> [] then Some (rid, now) else None
                 | None \<Rightarrow> None)\<rparr>"

text \<open>
  Hooks and handlers are functions of the source's arguments that return a value or throw
  (a rejected promise, once awaited, is a throw). A hook's result is whatever it returns:
  \<open>undefined\<close> for a hook that returns nothing.
\<close>

type_synonym PreHandlerHook = "MCPContext \<Rightarrow> jsval \<Rightarrow> fault + jsval"

type_synonym PostHandlerHook = "MCPContext \<Rightarrow> jsval \<Rightarrow> jsval \<Rightarrow> fault + jsval"

type_synonym ToolHandler = "jsval \<Rightarrow> MCPContext \<Rightarrow> fault + jsval"

record MCPToolDefinition =
  name :: string
  description :: "string option"
  inputSchema :: zod
  outputSchema :: zod
  handler :: ToolHandler
  preHandler :: "PreHandlerHook list option"
  postHandler :: "PostHandlerHook list option"

definition already_registered :: "string \<Rightarrow> fault" where
  "already_registered n =
     JsError (''Tool with name '' @ [CHR 0x22] @ n @ [CHR 0x22] @ '' already registered'')"

text \<open>\<open>registerTool\<close> on the server's \<open>tools\<close> array: the outcome of the call and the array
  afterwards.\<close>

definition registerTool ::
  "MCPToolDefinition \<Rightarrow> MCPToolDefinition list \<Rightarrow> (fault + unit) \<times> MCPToolDefinition list" where
  "registerTool tool tools =
     (if find (\<lambda>t. name t = name tool) tools \<noteq> None
      then (Inl (already_registered (name tool)), tools)
      else (Inr (), tools @ [tool]))"

text \<open>The array after a sequence of \<open>registerTool\<close> calls on a new server, whether or not
  some of them threw.\<close>

definition registered :: "MCPToolDefinition list \<Rightarrow> MCPToolDefinition list" where
  "registered ts = foldl (\<lambda>tools tool. snd (registerTool tool tools)) [] ts"

text \<open>The handler of the list-tools request; the result is its \<open>tools\<close> array.\<close>

definition listTools :: "MCPToolDefinition list \<Rightarrow> jsval list" where
  "listTools tools =
     map (\<lambda>tool.
       let schema = zodToJsonSchema (inputSchema tool)
       in Obj [(''name'', Str (name tool)),
               (''description'',
                  Str (case description tool of
                         Some d \<Rightarrow> if d \<noteq> [] then d else ''Execute '' @ name tool
                       | None \<Rightarrow> ''Execute '' @ name tool)),
               (''inputSchema'',
                  Obj (obj_set (obj_set (own_props schema) ''type'' (Str ''object''))
                         ''properties''
                         (if truthy (js_get schema ''properties'') then js_get schema ''properties''
                          else Obj [])))]) tools"

section \<open>The call-tool request handler (core/server)\<close>

record CallToolRequest =
  params_name :: string
  params_arguments :: jsval
  params_requestId :: jsval

text \<open>
  A result \<open>{content: [{type: 'text', text: JSON.stringify(v, null, 2)}], isError}\<close>:
  \<open>stringified\<close> is the value \<open>v\<close> that is serialised into the text, and \<open>isError\<close> is
  \<open>None\<close> where the result has no such key.
\<close>

record CallToolResult =
  stringified :: jsval
  isError :: "bool option"

definition error_result :: "string \<Rightarrow> string \<Rightarrow> string \<Rightarrow> CallToolResult" where
  "error_result err k detail =
     \<lparr>stringified = Obj [(''error'', Str err), (k, Str detail)], isError = Some True\<rparr>"

definition not_found_result :: "string \<Rightarrow> CallToolResult" where
  "not_found_result n =
     \<lparr>stringified = Obj [(''error'', Str (''Tool '' @ [CHR 0x22] @ n @ [CHR 0x22] @ '' not found''))],
      isError = Some True\<rparr>"

text \<open>
  The invocations that one call performs, in the order in which they happen: the position
  of the hook in its list and the arguments it is given (the context is the same for all).
\<close>

datatype invocation =
    PreHookCall nat jsval
  | HandlerCall jsval
  | PostHookCall nat jsval jsval

text \<open>\<open>if (result && result.input) input = result.input\<close>, and the same for \<open>output\<close>.\<close>

definition replaced :: "string \<Rightarrow> jsval \<Rightarrow> jsval \<Rightarrow> jsval" where
  "replaced k current result =
     (if truthy result \<and> truthy (js_get result k) then js_get result k else current)"

text \<open>The two \<open>for (const hook of ...)\<close> loops; \<open>i\<close> is the position of the next hook.\<close>

fun run_pre_hooks ::
  "MCPContext \<Rightarrow> PreHandlerHook list \<Rightarrow> nat \<Rightarrow> jsval \<Rightarrow> invocation list \<times> (fault + jsval)" where
  "run_pre_hooks ctx [] i input = ([], Inr input)"
| "run_pre_hooks ctx (hook # hooks) i input =
     (case hook ctx input of
        Inl error \<Rightarrow> ([PreHookCall i input], Inl error)
      | Inr result \<Rightarrow>
          (case run_pre_hooks ctx hooks (Suc i) (replaced ''input'' input result) of
             (calls, r) \<Rightarrow> (PreHookCall i input # calls, r)))"

fun run_post_hooks ::
  "MCPContext \<Rightarrow> PostHandlerHook list \<Rightarrow> nat \<Rightarrow> jsval \<Rightarrow> jsval
     \<Rightarrow> invocation list \<times> (fault + jsval)" where
  "run_post_hooks ctx [] i input output = ([], Inr output)"
| "run_post_hooks ctx (hook # hooks) i input output =
     (case hook ctx input output of
        Inl error \<Rightarrow> ([PostHookCall i input output], Inl error)
      | Inr result \<Rightarrow>
          (case run_post_hooks ctx hooks (Suc i) input (replaced ''output'' output result) of
             (calls, r) \<Rightarrow> (PostHookCall i input output # calls, r)))"

text \<open>\<open>if (tool.preHandler) { for ... }\<close>: a missing list runs no hook.\<close>

definition hooks_of :: "'h list option \<Rightarrow> 'h list" where
  "hooks_of hs = (case hs of None \<Rightarrow> [] | Some l \<Rightarrow> l)"

definition requestId_of :: "jsval \<Rightarrow> string option" where
  "requestId_of v = (case v of Str s \<Rightarrow> Some s | _ \<Rightarrow> None)"

text \<open>
  The body of the \<open>try\<close> block for a resolved tool: the invocations made, and either the
  result returned from inside the block or the exception that leaves it.
\<close>

definition callTool_try ::
  "zod_parse \<Rightarrow> int \<Rightarrow> MCPToolDefinition \<Rightarrow> CallToolRequest
     \<Rightarrow> invocation list \<times> (fault + CallToolResult)" where
  "callTool_try parse now tool req =
     (let ctx = createContext now (requestId_of (params_requestId req)) in
      case validateWithSchema parse (inputSchema tool) (params_arguments req) of
        Inl error \<Rightarrow> ([], Inl error)
      | Inr (Failure errors) \<Rightarrow>
          ([], Inr (error_result ''Input validation failed'' ''details'' (formatZodError errors)))
      | Inr (Success data) \<Rightarrow>
          (case run_pre_hooks ctx (hooks_of (preHandler tool)) 0 data of
             (pre, Inl error) \<Rightarrow> (pre, Inl error)
           | (pre, Inr input) \<Rightarrow>
               (case handler tool input ctx of
                  Inl error \<Rightarrow> (pre @ [HandlerCall input], Inl error)
                | Inr output \<Rightarrow>
                    (case validateWithSchema parse (outputSchema tool) output of
                       Inl error \<Rightarrow> (pre @ [HandlerCall input], Inl error)
                     | Inr (Failure errors) \<Rightarrow>
                         (pre @ [HandlerCall input],
                          Inr (error_result ''Output validation failed'' ''details''
                                 (formatZodError errors)))
                     | Inr (Success validated) \<Rightarrow>
                         (case run_post_hooks ctx (hooks_of (postHandler tool)) 0 input validated of
                            (post, Inl error) \<Rightarrow> (pre @ [HandlerCall input] @ post, Inl error)
                          | (post, Inr final) \<Rightarrow>
                              (pre @ [HandlerCall input] @ post,
                               Inr \<lparr>stringified = final, isError = None\<rparr>))))))"

text \<open>
  The request handler: tool lookup, the \<open>try\<close> block and its \<open>catch\<close>. \<open>Inl\<close> is an
  exception that leaves the handler, so that its promise is rejected: the \<open>catch\<close> block
  computes the message outside any \<open>try\<close>.
\<close>

definition callTool ::
  "zod_parse \<Rightarrow> int \<Rightarrow> MCPToolDefinition list \<Rightarrow> CallToolRequest
     \<Rightarrow> invocation list \<times> (fault + CallToolResult)" where
  "callTool parse now tools req =
     (case find (\<lambda>t. name t = params_name req) tools of
        None \<Rightarrow> ([], Inr (not_found_result (params_name req)))
      | Some tool \<Rightarrow>
          (case callTool_try parse now tool req of
             (calls, Inl error) \<Rightarrow>
               (case fault_message error of
                  Inl thrown \<Rightarrow> (calls, Inl thrown)
                | Inr m \<Rightarrow> (calls, Inr (error_result ''Tool execution failed'' ''message'' m)))
           | (calls, Inr result) \<Rightarrow> (calls, Inr result)))"

section \<open>Authentication middleware (core/middleware: createAuthMiddleware)\<close>

datatype auth_type = ApiKey | Bearer | Custom

fun auth_type_String :: "auth_type \<Rightarrow> string" where
  "auth_type_String ApiKey = ''apiKey''"
| "auth_type_String Bearer = ''bearer''"
| "auth_type_String Custom = ''custom''"

text \<open>\<open>validate\<close> is given the token (and a context that the middleware builds from its own
  arguments); it answers or throws.\<close>

record AuthOptions =
  type :: auth_type
  headerName :: "string option"
  validate :: "(string \<Rightarrow> fault + bool) option"

text \<open>A header value is a string or an array of strings; a missing header is \<open>None\<close>.\<close>

datatype header_value = Single string | Multi "string list"

record GenericRequest =
  headers :: "string \<rightharpoonup> header_value"

text \<open>What the middleware does with the response and the continuation: it answers with a
  status and a JSON body, or it calls \<open>next()\<close>.\<close>

datatype middleware_outcome = Responded nat jsval | Next

text \<open>\<open>Array.isArray(h) ? h[0] : h\<close>.\<close>

fun first_or_self :: "header_value option \<Rightarrow> string option" where
  "first_or_self None = None"
| "first_or_self (Some (Single s)) = Some s"
| "first_or_self (Some (Multi [])) = None"
| "first_or_self (Some (Multi (s # ss))) = Some s"

text \<open>\<open>toLowerCase\<close> on a header name written in ASCII: the letters \<open>A\<close> to \<open>Z\<close> are
  lowered and every other byte is left as it is (the lowering of letters outside ASCII is
  not represented).\<close>

definition toLowerCase :: "string \<Rightarrow> string" where
  "toLowerCase s =
     map (\<lambda>c. if CHR ''A'' \<le> c \<and> c \<le> CHR ''Z'' then char_of (of_char c + (32::nat)) else c) s"

definition startsWith :: "string \<Rightarrow> string \<Rightarrow> bool" where
  "startsWith s p = (take (length p) s = p)"

definition extract_token :: "AuthOptions \<Rightarrow> GenericRequest \<Rightarrow> string option" where
  "extract_token options req =
     (case type options of
        ApiKey \<Rightarrow>
          (let hn = (case headerName options of
                       Some h \<Rightarrow> if h \<noteq> [] then h else ''x-api-key''
                     | None \<Rightarrow> ''x-api-key'')
           in first_or_self (headers req (toLowerCase hn)))
      | Bearer \<Rightarrow>
          (case first_or_self (headers req ''authorization'') of
             Some authHeaderStr \<Rightarrow>
               if startsWith authHeaderStr ''Bearer '' then Some (drop 7 authHeaderStr) else None
           | None \<Rightarrow> None)
      | Custom \<Rightarrow> None)"

text \<open>The middleware returned by \<open>createAuthMiddleware(options)\<close>, applied to a request.
  \<open>Inl\<close> is the rejection of its promise when \<open>validate\<close> throws.\<close>

definition createAuthMiddleware :: "AuthOptions \<Rightarrow> GenericRequest \<Rightarrow> fault + middleware_outcome" where
  "createAuthMiddleware options req =
     (let token = extract_token options req in
      if token = None \<or> token = Some [] then
        Inr (Responded 401
               (Obj [(''error'', Str ''Authentication required''),
                     (''message'', Str (''Missing '' @ auth_type_String (type options) @ '' token''))]))
      else
        (case validate options of
           None \<Rightarrow> Inr Next
         | Some v \<Rightarrow>
             (case v (the token) of
                Inl error \<Rightarrow> Inl error
              | Inr isValid \<Rightarrow>
                  if \<not> isValid then
                    Inr (Responded 401
                           (Obj [(''error'', Str ''Authentication failed''),
                                 (''message'', Str ''Invalid token'')]))
                  else Inr Next)))"

section \<open>The values seen by each hook\<close>

text \<open>
  The current input when the hook at position \<open>i\<close> is reached: the validated data at first,
  and after a hook that returned, the value that its result put in place (if any).
\<close>

fun input_at :: "MCPContext \<Rightarrow> PreHandlerHook list \<Rightarrow> jsval \<Rightarrow> nat \<Rightarrow> jsval" where
  "input_at ctx hooks data 0 = data"
| "input_at ctx hooks data (Suc i) =
     (case (hooks ! i) ctx (input_at ctx hooks data i) of
        Inr result \<Rightarrow> replaced ''input'' (input_at ctx hooks data i) result
      | Inl error \<Rightarrow> input_at ctx hooks data i)"

text \<open>The current output when the post-handler hook at position \<open>i\<close> is reached.\<close>

fun output_at :: "MCPContext \<Rightarrow> PostHandlerHook list \<Rightarrow> jsval \<Rightarrow> jsval \<Rightarrow> nat \<Rightarrow> jsval" where
  "output_at ctx hooks input validated 0 = validated"
| "output_at ctx hooks input validated (Suc i) =
     (case (hooks ! i) ctx input (output_at ctx hooks input validated i) of
        Inr result \<Rightarrow> replaced ''output'' (output_at ctx hooks input validated i) result
      | Inl error \<Rightarrow> output_at ctx hooks input validated i)"


section \<open>Sample tools and requests\<close>

text \<open>
  A sample behaviour of the schema library's \<open>parse\<close>, used to apply the results below to
  concrete calls: flat objects of strings, numbers, booleans and enumerations are checked
  field by field and unknown keys are stripped; a schema with \<open>typeName\<close> \<open>ZodEffects\<close>
  stands for one whose refinement throws an ordinary \<open>Error\<close>; any other schema accepts
  every value. It is a stand-in, not the library: the general results take \<open>parse\<close> as
  an argument and hold for every behaviour of it.
\<close>

fun sample_leaf :: "zod \<Rightarrow> jsval \<Rightarrow> string option" where
  "sample_leaf (ZodOptional z) v = (if v = Undefined then None else sample_leaf z v)"
| "sample_leaf (ZodString cs) (Str s) = None"
| "sample_leaf (ZodNumber cs) (Num n) = None"
| "sample_leaf ZodBoolean (Bool b) = None"
| "sample_leaf (ZodEnum vs) (Str s) = (if s \<in> set vs then None else Some ''Invalid enum value'')"
| "sample_leaf (ZodString cs) v = Some (if v = Undefined then ''Required'' else ''Expected string, received '' @ js_typeof v)"
| "sample_leaf (ZodNumber cs) v = Some (if v = Undefined then ''Required'' else ''Expected number, received '' @ js_typeof v)"
| "sample_leaf ZodBoolean v = Some (if v = Undefined then ''Required'' else ''Expected boolean, received '' @ js_typeof v)"
| "sample_leaf (ZodEnum vs) v = Some (if v = Undefined then ''Required'' else ''Invalid enum value'')"
| "sample_leaf z v = None"

fun sample_parse :: "zod \<Rightarrow> jsval \<Rightarrow> parse_outcome" where
  "sample_parse (ZodObject shape) (Obj kvs) =
     (let issues = concat (map (\<lambda>(k, z). case sample_leaf z (js_get (Obj kvs) k) of
                                            None \<Rightarrow> []
                                          | Some m \<Rightarrow> [\<lparr>path = [Key k], message = m\<rparr>]) shape)
      in if issues = [] then Parsed (Obj (filter (\<lambda>(k, v). k \<in> set (map fst shape)) kvs))
         else ThrewZodError issues)"
| "sample_parse (ZodObject shape) v =
     ThrewZodError [\<lparr>path = [], message = ''Expected object, received '' @ js_typeof v\<rparr>]"
| "sample_parse (ZodOther typeName) v =
     (if typeName = ''ZodEffects'' then Threw (JsError ''refinement crashed'') else Parsed v)"
| "sample_parse z v =
     (case sample_leaf z v of
        None \<Rightarrow> Parsed v
      | Some m \<Rightarrow> ThrewZodError [\<lparr>path = [], message = m\<rparr>])"

text \<open>
  Two tools with the names, descriptions and schemas of \<open>greet\<close> and \<open>calculate\<close> of the
  demo server. Their handlers are samples on string and integer arguments: the one of
  \<open>calculate\<close> throws on a division by zero, as the demo's does, and otherwise answers with
  integer arithmetic (the quotient rounded down) and the name of the operation.
\<close>

definition greet :: MCPToolDefinition where
  "greet =
     \<lparr>name = ''greet'',
      description = Some ''Greet a user by name'',
      inputSchema = ZodObject [(''name'', ZodString []), (''formal'', ZodOther ''ZodDefault'')],
      outputSchema = ZodObject [(''message'', ZodString []), (''timestamp'', ZodString [])],
      handler = (\<lambda>input ctx.
        case js_get input ''name'' of
          Str n \<Rightarrow>
            Inr (Obj [(''message'',
                        Str ((if truthy (js_get input ''formal'') then ''Good day'' else ''Hello'')
                             @ '', '' @ n @ ''!'')),
                      (''timestamp'', Str ''2024-01-01T00:00:00.000Z'')])
        | _ \<Rightarrow> Inl (JsError ''unexpected input'')),
      preHandler = Some [],
      postHandler = Some []\<rparr>"

definition calculate_handler :: ToolHandler where
  "calculate_handler input ctx =
     (case (js_get input ''operation'', js_get input ''a'', js_get input ''b'') of
        (Str operation, Num a, Num b) \<Rightarrow>
          if operation = ''divide'' \<and> b = 0 then Inl (JsError ''Division by zero'')
          else Inr (Obj [(''result'',
                           Num (if operation = ''add'' then a + b
                                else if operation = ''subtract'' then a - b
                                else if operation = ''multiply'' then a * b
                                else if operation = ''divide'' then a div b
                                else 0)),
                         (''operation'', Str operation)])
      | _ \<Rightarrow> Inl (JsError ''unexpected input''))"

definition calculate :: MCPToolDefinition where
  "calculate =
     \<lparr>name = ''calculate'',
      description = Some ''Perform basic mathematical operations'',
      inputSchema = ZodObject [(''operation'', ZodEnum [''add'', ''subtract'', ''multiply'', ''divide'']),
                               (''a'', ZodNumber []), (''b'', ZodNumber [])],
      outputSchema = ZodObject [(''result'', ZodNumber []), (''operation'', ZodString [])],
      handler = calculate_handler,
      preHandler = Some [],
      postHandler = Some []\<rparr>"

text \<open>A tool with two pre-handler hooks: the first returns a new input, the second returns
  nothing. The handler echoes the input it is given.\<close>

definition trim_hook :: PreHandlerHook where
  "trim_hook ctx input = Inr (Obj [(''input'', Obj [(''data'', Str ''trimmed'')])])"

definition silent_hook :: PreHandlerHook where
  "silent_hook ctx input = Inr Undefined"

definition echo_handler :: ToolHandler where
  "echo_handler input ctx = Inr (Obj [(''result'', js_get input ''data'')])"

definition secureAction :: MCPToolDefinition where
  "secureAction =
     \<lparr>name = ''secureAction'',
      description = None,
      inputSchema = ZodObject [(''data'', ZodString [])],
      outputSchema = ZodObject [(''result'', ZodString [])],
      handler = echo_handler,
      preHandler = Some [trim_hook, silent_hook],
      postHandler = Some []\<rparr>"

text \<open>A tool that accepts any value (\<open>z.any()\<close>) and whose first hook returns
  \<open>{input: 0}\<close>.\<close>

definition zero_hook :: PreHandlerHook where
  "zero_hook ctx input = Inr (Obj [(''input'', Num 0)])"

definition anyTool :: MCPToolDefinition where
  "anyTool =
     \<lparr>name = ''anyTool'',
      description = Some [],
      inputSchema = ZodOther ''ZodAny'',
      outputSchema = ZodOther ''ZodAny'',
      handler = (\<lambda>input ctx. Inr input),
      preHandler = Some [zero_hook, silent_hook],
      postHandler = None\<rparr>"

text \<open>A tool whose second pre-handler hook throws an \<open>Error\<close> on long data, and whose
  second post-handler hook throws a string.\<close>

definition size_hook :: PreHandlerHook where
  "size_hook ctx input =
     (case js_get input ''data'' of
        Str d \<Rightarrow> if length d > 8 then Inl (JsError ''Input too large'') else Inr Undefined
      | _ \<Rightarrow> Inr Undefined)"

definition failing_post_hook :: PostHandlerHook where
  "failing_post_hook ctx input output = Inl (Thrown (Some ''audit sink down''))"

definition stamp_post_hook :: PostHandlerHook where
  "stamp_post_hook ctx input output =
     Inr (Obj [(''output'', Obj [(''result'', js_get output ''result''), (''audited'', Bool True)])])"

definition audited :: MCPToolDefinition where
  "audited =
     \<lparr>name = ''audited'',
      description = Some ''Echo with an audit trail'',
      inputSchema = ZodObject [(''data'', ZodString [])],
      outputSchema = ZodObject [(''result'', ZodString [])],
      handler = echo_handler,
      preHandler = Some [silent_hook, size_hook],
      postHandler = Some [stamp_post_hook, failing_post_hook]\<rparr>"

text \<open>A tool whose handler throws an object that has no string conversion
  (\<open>throw Object.create(null)\<close>).\<close>

definition fragile :: MCPToolDefinition where
  "fragile =
     \<lparr>name = ''fragile'',
      description = Some ''Throws a bare object'',
      inputSchema = ZodObject [],
      outputSchema = ZodObject [],
      handler = (\<lambda>input ctx. Inl (Thrown None)),
      preHandler = Some [],
      postHandler = Some []\<rparr>"

text \<open>A tool whose input has one required string property, named \<open>a.b\<close>.\<close>

definition dotted :: MCPToolDefinition where
  "dotted =
     \<lparr>name = ''dotted'',
      description = Some ''Takes a property with a dot in its name'',
      inputSchema = ZodObject [(''a.b'', ZodString [])],
      outputSchema = ZodObject [],
      handler = (\<lambda>input ctx. Inr (Obj [])),
      preHandler = Some [],
      postHandler = Some []\<rparr>"

definition sample_request :: "string \<Rightarrow> jsval \<Rightarrow> CallToolRequest" where
  "sample_request n args = \<lparr>params_name = n, params_arguments = args, params_requestId = Undefined\<rparr>"

section \<open>Properties of the rate limiter\<close>

lemma check_max_req [simp]: "max_req (snd (check now key rl)) = max_req rl"
  by (simp add: check_def Let_def)

lemma reset_max_req [simp]: "max_req (reset key rl) = max_req rl"
  by (simp add: reset_def)

lemma check_bounded: "bounded rl \<Longrightarrow> bounded (snd (check now key rl))"
  by (auto simp: bounded_def check_def Let_def)

lemma reset_bounded: "bounded rl \<Longrightarrow> bounded (reset key rl)"
  by (auto simp: bounded_def reset_def)

lemma apply_op_bounded: "bounded rl \<Longrightarrow> bounded (apply_op rl op)"
  by (cases op) (simp_all add: check_bounded reset_bounded)

lemma apply_op_max_req [simp]: "max_req (apply_op rl op) = max_req rl"
  by (cases op) simp_all

lemma run_ops_bounded: "bounded rl \<Longrightarrow> bounded (run_ops ops rl)"
  unfolding run_ops_def
  by (induction ops arbitrary: rl) (simp_all add: apply_op_bounded)

lemma run_ops_max_req [simp]: "max_req (run_ops ops rl) = max_req rl"
  unfolding run_ops_def
  by (induction ops arbitrary: rl) simp_all

lemma new_bounded: "bounded (new_RateLimiter m w)"
  by (simp add: bounded_def new_RateLimiter_def)

text \<open>
  C9. After any sequence of \<open>check\<close> and \<open>reset\<close> calls on a freshly constructed limiter, the
  list stored for any key has at most \<open>max\<close> entries. A rejected check stores nothing, an
  accepted check stores the pruned list followed by the current time, and \<open>reset\<close> removes
  the key's entry.
\<close>

theorem rate_limiter_stored_at_most_max:
  "(\<forall>key ts. requests (run_ops ops (new_RateLimiter m w)) key = Some ts \<longrightarrow> int (length ts) \<le> m)
   \<and> (\<not> fst (check now key rl) \<longrightarrow> snd (check now key rl) = rl)
   \<and> (fst (check now key rl) \<longrightarrow>
        requests (snd (check now key rl)) =
          (requests rl)(key \<mapsto> filter (\<lambda>time. now - time < windowMs rl) (stored rl key) @ [now]))
   \<and> requests (reset key rl) key = None"
proof -
  have "bounded (run_ops ops (new_RateLimiter m w))"
    by (rule run_ops_bounded) (rule new_bounded)
  then have "\<forall>key ts. requests (run_ops ops (new_RateLimiter m w)) key = Some ts \<longrightarrow> int (length ts) \<le> m"
    by (simp add: bounded_def new_RateLimiter_def)
  moreover have "\<not> fst (check now key rl) \<longrightarrow> snd (check now key rl) = rl"
    by (simp add: check_def Let_def)
  moreover have "fst (check now key rl) \<longrightarrow>
        requests (snd (check now key rl)) =
          (requests rl)(key \<mapsto> filter (\<lambda>time. now - time < windowMs rl) (stored rl key) @ [now])"
    by (simp add: check_def Let_def)
  moreover have "requests (reset key rl) key = None"
    by (simp add: reset_def)
  ultimately show ?thesis by blast
qed

theorem rate_limiter_stored_at_most_max_witness:
  "requests (run_ops [Check 0 ''a'', Check 100 ''a'', Check 200 ''a'', Reset ''b'', Check 1100 ''a'']
              (new_RateLimiter 2 1000)) ''a'' = Some [1100]
   \<and> int (length [1100::int]) \<le> 2"
  using rate_limiter_stored_at_most_max
    [of "[Check 0 ''a'', Check 100 ''a'', Check 200 ''a'', Reset ''b'', Check 1100 ''a'']" 2 1000]
  by (simp add: run_ops_def check_def reset_def stored_def new_RateLimiter_def Let_def)

text \<open>
  C4 (as amended). A check keeps exactly the recorded times \<open>t\<close> with
  \<open>now - windowMs < t\<close>, so a time that is \<open>windowMs\<close> old or older is discarded; it then
  accepts, storing the kept times followed by \<open>now\<close>, iff fewer than \<open>max\<close> times were
  kept, and otherwise answers false and leaves the state as it was. With \<open>max = 2\<close> and
  \<open>windowMs = 1000\<close>, three checks of one key within 500 ms give accept, accept, reject, and
  a fourth check 1100 ms after the first gives accept.
\<close>

theorem rate_limiter_check_window:
  "check now key rl =
     (let remaining = filter (\<lambda>t. now - windowMs rl < t) (stored rl key)
      in if int (length remaining) < max_req rl
         then (True, rl\<lparr>requests := (requests rl)(key \<mapsto> remaining @ [now])\<rparr>)
         else (False, rl))
   \<and> (t1 \<le> t2 \<and> t2 \<le> t3 \<and> t3 \<le> t1 + 500 \<longrightarrow>
        check_seq [t1, t2, t3, t1 + 1100] key (new_RateLimiter 2 1000) = [True, True, False, True])"
proof -
  have eq: "(\<lambda>time. now - time < windowMs rl) = (\<lambda>t. now - windowMs rl < t)"
    by (rule ext) arith
  have "check now key rl =
     (let remaining = filter (\<lambda>t. now - windowMs rl < t) (stored rl key)
      in if int (length remaining) < max_req rl
         then (True, rl\<lparr>requests := (requests rl)(key \<mapsto> remaining @ [now])\<rparr>)
         else (False, rl))"
    by (simp add: check_def eq Let_def)
  moreover have "t1 \<le> t2 \<and> t2 \<le> t3 \<and> t3 \<le> t1 + 500 \<longrightarrow>
        check_seq [t1, t2, t3, t1 + 1100] key (new_RateLimiter 2 1000) = [True, True, False, True]"
    by (simp add: check_def stored_def new_RateLimiter_def Let_def)
  ultimately show ?thesis by blast
qed

theorem rate_limiter_check_window_witness:
  "(0::int) \<le> 200 \<and> (200::int) \<le> 400 \<and> (400::int) \<le> 0 + 500
   \<and> check_seq [0, 200, 400, 1100] ''client'' (new_RateLimiter 2 1000) = [True, True, False, True]"
  using rate_limiter_check_window [of 0 "''client''" "new_RateLimiter 2 1000" 0 200 400]
  by (simp add: check_def stored_def new_RateLimiter_def Let_def)

text \<open>
  The check worded with "older than \<open>now - windowLength\<close>" keeps a time that is exactly
  \<open>windowMs\<close> old. With \<open>max = 1\<close> and \<open>windowMs = 1000\<close>, after an accepted check at time 0,
  the check at time 1000 is accepted by \<open>check\<close> and rejected by that wording.
\<close>

theorem rate_limiter_boundary_counterexample:
  "fst (check 1000 ''k'' (snd (check 0 ''k'' (new_RateLimiter 1 1000)))) = True
   \<and> fst (spec_check 1000 ''k'' (snd (check 0 ''k'' (new_RateLimiter 1 1000)))) = False"
  by (simp add: check_def spec_check_def stored_def new_RateLimiter_def Let_def)

section \<open>Properties of the authentication middleware\<close>

text \<open>
  C10. With \<open>type: 'custom'\<close> neither extraction branch applies, so no token is set and the
  middleware answers 401 "Authentication required" for every request, whatever its headers
  and whatever the \<open>validate\<close> function; the continuation is not called.
\<close>

theorem custom_auth_always_rejects:
  assumes "type options = Custom"
  shows "extract_token options req = None
         \<and> createAuthMiddleware options req =
             Inr (Responded 401 (Obj [(''error'', Str ''Authentication required''),
                                      (''message'', Str ''Missing custom token'')]))
         \<and> createAuthMiddleware options req \<noteq> Inr Next"
  using assms by (simp add: createAuthMiddleware_def extract_token_def)

theorem custom_auth_always_rejects_witness:
  "type \<lparr>type = Custom, headerName = Some ''x-api-key'', validate = Some (\<lambda>token. Inr True)\<rparr> = Custom
   \<and> createAuthMiddleware \<lparr>type = Custom, headerName = Some ''x-api-key'', validate = Some (\<lambda>token. Inr True)\<rparr>
        \<lparr>headers = [''x-api-key'' \<mapsto> Single ''secret'', ''authorization'' \<mapsto> Single ''Bearer secret'']\<rparr>
       = Inr (Responded 401 (Obj [(''error'', Str ''Authentication required''),
                                  (''message'', Str ''Missing custom token'')]))"
  using custom_auth_always_rejects
    [of "\<lparr>type = Custom, headerName = Some ''x-api-key'', validate = Some (\<lambda>token. Inr True)\<rparr>"
        "\<lparr>headers = [''x-api-key'' \<mapsto> Single ''secret'', ''authorization'' \<mapsto> Single ''Bearer secret'']\<rparr>"]
  by simp

section \<open>Properties of the validator\<close>

text \<open>
  C6 (as amended). \<open>validateWithSchema\<close> returns a validation result as an ordinary value
  exactly when \<open>parse\<close> returns or throws a \<open>ZodError\<close>: success with the parsed value, or
  failure with the issues. Any other exception thrown by \<open>parse\<close> is thrown again.
\<close>

theorem validateWithSchema_outcomes:
  "(parse schema data = Parsed v \<longrightarrow> validateWithSchema parse schema data = Inr (Success v))
   \<and> (parse schema data = ThrewZodError issues \<longrightarrow>
        validateWithSchema parse schema data = Inr (Failure issues))
   \<and> (parse schema data = Threw e \<longrightarrow> validateWithSchema parse schema data = Inl e)
   \<and> ((\<exists>r. validateWithSchema parse schema data = Inr r) \<longleftrightarrow> (\<forall>e. parse schema data \<noteq> Threw e))"
  by (cases "parse schema data") (simp_all add: validateWithSchema_def)

theorem validateWithSchema_outcomes_witness:
  "sample_parse (inputSchema calculate) (Obj [(''operation'', Str ''divide''), (''a'', Str ''ten'')])
     = ThrewZodError [\<lparr>path = [Key ''a''], message = ''Expected number, received string''\<rparr>,
                      \<lparr>path = [Key ''b''], message = ''Required''\<rparr>]
   \<and> validateWithSchema sample_parse (inputSchema calculate)
        (Obj [(''operation'', Str ''divide''), (''a'', Str ''ten'')])
     = Inr (Failure [\<lparr>path = [Key ''a''], message = ''Expected number, received string''\<rparr>,
                     \<lparr>path = [Key ''b''], message = ''Required''\<rparr>])"
  using validateWithSchema_outcomes
    [of sample_parse "inputSchema calculate" "Obj [(''operation'', Str ''divide''), (''a'', Str ''ten'')]"
        undefined "[\<lparr>path = [Key ''a''], message = ''Expected number, received string''\<rparr>,
                      \<lparr>path = [Key ''b''], message = ''Required''\<rparr>]"]
  by (simp add: calculate_def)

text \<open>
  A schema whose refinement throws an ordinary \<open>Error\<close>: the exception leaves
  \<open>validateWithSchema\<close>.
\<close>

theorem validateWithSchema_throws_counterexample:
  "validateWithSchema sample_parse (ZodOther ''ZodEffects'') (Obj []) = Inl (JsError ''refinement crashed'')"
  by (simp add: validateWithSchema_def)

section \<open>Properties of the registry\<close>

lemma find_name_None: "(find (\<lambda>t. name t = n) tools = None) \<longleftrightarrow> n \<notin> name ` set tools"
  by (auto simp: find_None_iff)

lemma registerTool_distinct:
  "distinct (map name tools) \<Longrightarrow> distinct (map name (snd (registerTool tool tools)))"
  by (auto simp: registerTool_def find_name_None)

lemma registered_snoc: "registered (ts @ [t]) = snd (registerTool t (registered ts))"
  by (simp add: registered_def)

lemma registered_distinct: "distinct (map name (registered ts))"
proof (induction ts rule: rev_induct)
  case Nil
  show ?case by (simp add: registered_def)
next
  case (snoc t ts)
  then show ?case by (simp only: registered_snoc registerTool_distinct)
qed

lemma filter_distinct_one:
  "distinct (map f xs) \<Longrightarrow> n \<in> f ` set xs \<Longrightarrow> length (filter (\<lambda>t. f t = n) xs) = 1"
proof (induction xs)
  case Nil
  then show ?case by simp
next
  case (Cons x xs)
  show ?case
  proof (cases "f x = n")
    case True
    from Cons.prems have "f x \<notin> f ` set xs" by simp
    with True have "\<forall>t\<in>set xs. f t \<noteq> n" by blast
    then have "filter (\<lambda>t. f t = n) xs = []"
      by (simp add: filter_empty_conv)
    with True show ?thesis by simp
  next
    case False
    with Cons show ?thesis by auto
  qed
qed

lemma listTools_names: "map (\<lambda>e. js_get e ''name'') (listTools tools) = map (\<lambda>t. Str (name t)) tools"
  by (simp add: listTools_def Let_def comp_def)

lemma registered_greet_calculate: "registered [greet, calculate] = [greet, calculate]"
  by (simp add: registered_def registerTool_def greet_def calculate_def)

text \<open>
  C5. On a registry built by \<open>registerTool\<close> calls, registering a tool whose name is
  already present throws the "already registered" error (the specification's
  DuplicateToolError) and leaves the registry as it was, with exactly one entry of that
  name; registering a tool with a new name appends it, so that the catalog lists the
  earlier tools in their order followed by the new one.
\<close>

theorem registerTool_duplicate_or_append:
  "(name tool \<in> name ` set (registered ts) \<longrightarrow>
      registerTool tool (registered ts) = (Inl (already_registered (name tool)), registered ts)
      \<and> length (filter (\<lambda>t. name t = name tool) (registered ts)) = 1)
   \<and> (name tool \<notin> name ` set (registered ts) \<longrightarrow>
      registerTool tool (registered ts) = (Inr (), registered ts @ [tool])
      \<and> map (\<lambda>e. js_get e ''name'') (listTools (registered ts @ [tool]))
          = map (\<lambda>e. js_get e ''name'') (listTools (registered ts)) @ [Str (name tool)])"
proof -
  have "name tool \<in> name ` set (registered ts) \<longrightarrow>
      length (filter (\<lambda>t. name t = name tool) (registered ts)) = 1"
    using filter_distinct_one [OF registered_distinct] by blast
  moreover have "name tool \<in> name ` set (registered ts) \<longrightarrow>
      registerTool tool (registered ts) = (Inl (already_registered (name tool)), registered ts)"
    by (simp add: registerTool_def find_name_None)
  moreover have "name tool \<notin> name ` set (registered ts) \<longrightarrow>
      registerTool tool (registered ts) = (Inr (), registered ts @ [tool])"
    by (simp add: registerTool_def find_name_None)
  moreover have "map (\<lambda>e. js_get e ''name'') (listTools (registered ts @ [tool]))
          = map (\<lambda>e. js_get e ''name'') (listTools (registered ts)) @ [Str (name tool)]"
    by (simp add: listTools_names)
  ultimately show ?thesis by blast
qed

theorem registerTool_duplicate_or_append_witness:
  "name greet \<in> name ` set (registered [greet, calculate])
   \<and> registerTool greet (registered [greet, calculate])
       = (Inl (JsError ''Tool with name \"greet\" already registered''), registered [greet, calculate])
   \<and> length (filter (\<lambda>t. name t = name greet) (registered [greet, calculate])) = 1
   \<and> name secureAction \<notin> name ` set (registered [greet, calculate])
   \<and> registerTool secureAction (registered [greet, calculate])
       = (Inr (), registered [greet, calculate] @ [secureAction])"
  using registerTool_duplicate_or_append [of greet "[greet, calculate]"]
    registerTool_duplicate_or_append [of secureAction "[greet, calculate]"]
  by (simp add: registered_greet_calculate already_registered_def)
     (simp add: greet_def calculate_def secureAction_def)

section \<open>Properties of the schema translation\<close>

lemma obj_set_fresh: "k \<notin> fst ` set kvs \<Longrightarrow> obj_set kvs k v = kvs @ [(k, v)]"
  by (induction kvs) auto

lemma object_loop_distinct:
  "distinct (map fst shape) \<Longrightarrow> ''__proto__'' \<notin> set (map fst shape) \<Longrightarrow>
   set (map fst shape) \<inter> fst ` set properties = {} \<Longrightarrow>
   object_loop shape properties required =
     (properties @ map (\<lambda>(k, v). (k, zodToJsonSchema v)) shape,
      required @ map fst (filter (\<lambda>(k, v). \<not> isZodOptional v) shape))"
proof (induction shape arbitrary: properties required)
  case Nil
  show ?case by simp
next
  case (Cons p shape)
  obtain k v where p: "p = (k, v)" by (cases p)
  from Cons.prems p have fresh: "k \<notin> fst ` set properties" by auto
  from Cons.prems p have k: "k \<noteq> ''__proto__''" by auto
  from Cons.prems p have d: "distinct (map fst shape)" by simp
  from Cons.prems p have n: "''__proto__'' \<notin> set (map fst shape)" by simp
  from Cons.prems p have
    disj: "set (map fst shape) \<inter> fst ` set (properties @ [(k, zodToJsonSchema v)]) = {}"
    by auto
  show ?case
    using Cons.IH [OF d n disj] k by (simp add: p obj_assign_def obj_set_fresh [OF fresh])
qed

text \<open>
  C7. At an object schema that has a property named \<open>__proto__\<close>, as
  \<open>z.object({['__proto__']: z.string(), a: z.string()})\<close> has, the translation does not
  carry every property of the shape: the write \<open>properties['__proto__'] = ...\<close> adds no
  property, so the document has the properties \<open>a\<close> alone, while \<open>required\<close> still lists
  \<open>__proto__\<close> before \<open>a\<close>.
\<close>

theorem zodToJsonSchema_drops_proto_property:
  "zodToJsonSchema (ZodObject [(''__proto__'', ZodString []), (''a'', ZodString [])]) =
     Obj [(''type'', Str ''object''),
          (''properties'', Obj [(''a'', Obj [(''type'', Str ''string'')])]),
          (''required'', Arr [Str ''__proto__'', Str ''a''])]"
  by (simp add: obj_assign_def)

text \<open>
  For every other object schema (its shape, being an object, has distinct keys) the
  translation has type "object", the properties translated one by one in the order of the
  shape, and as \<open>required\<close> the names of the properties that are not an Optional; when
  there is none, \<open>required\<close> is \<open>undefined\<close>, so the serialised document has no such member.
  An Optional translates to the translation of what it wraps.
\<close>

theorem zodToJsonSchema_object:
  assumes "distinct (map fst shape)" and "''__proto__'' \<notin> set (map fst shape)"
  shows "zodToJsonSchema (ZodObject shape) =
           Obj [(''type'', Str ''object''),
                (''properties'', Obj (map (\<lambda>(k, v). (k, zodToJsonSchema v)) shape)),
                (''required'',
                   if map fst (filter (\<lambda>(k, v). \<not> isZodOptional v) shape) = [] then Undefined
                   else Arr (map Str (map fst (filter (\<lambda>(k, v). \<not> isZodOptional v) shape))))]
         \<and> (''required'' \<in> fst ` set (JSON_members (zodToJsonSchema (ZodObject shape)))
              \<longleftrightarrow> map fst (filter (\<lambda>(k, v). \<not> isZodOptional v) shape) \<noteq> [])
         \<and> zodToJsonSchema (ZodOptional inner) = zodToJsonSchema inner"
  using object_loop_distinct [OF assms, of "[]" "[]"]
  by (simp add: JSON_members_def)

theorem zodToJsonSchema_object_example:
  "zodToJsonSchema (ZodObject [(''name'', ZodString [StrMin 1]), (''nick'', ZodOptional (ZodString [])),
                               (''age'', ZodNumber [NumInt, NumMin 0])])
     = Obj [(''type'', Str ''object''),
            (''properties'',
               Obj [(''name'', Obj [(''type'', Str ''string''), (''minLength'', Num 1)]),
                    (''nick'', Obj [(''type'', Str ''string'')]),
                    (''age'', Obj [(''type'', Str ''integer''), (''minimum'', Num 0)])]),
            (''required'', Arr [Str ''name'', Str ''age''])]
   \<and> zodToJsonSchema (ZodObject [(''nick'', ZodOptional (ZodString []))])
       = Obj [(''type'', Str ''object''),
              (''properties'', Obj [(''nick'', Obj [(''type'', Str ''string'')])]),
              (''required'', Undefined)]"
  using zodToJsonSchema_object
    [of "[(''name'', ZodString [StrMin 1]), (''nick'', ZodOptional (ZodString [])),
          (''age'', ZodNumber [NumInt, NumMin 0])]" "ZodString []"]
    zodToJsonSchema_object [of "[(''nick'', ZodOptional (ZodString []))]" "ZodString []"]
  by simp

section \<open>Properties of the catalog\<close>

lemma map_of_obj_set: "map_of (obj_set kvs k v) k' = (if k' = k then Some v else map_of kvs k')"
  by (induction kvs) auto

lemma zodToJsonSchema_Obj: "\<exists>kvs. zodToJsonSchema z = Obj kvs"
  by (induction z) (auto simp: Let_def split: prod.splits)

lemma listTools_nth:
  "i < length tools \<Longrightarrow>
   listTools tools ! i =
     Obj [(''name'', Str (name (tools ! i))),
          (''description'',
             Str (case description (tools ! i) of
                    Some d \<Rightarrow> if d \<noteq> [] then d else ''Execute '' @ name (tools ! i)
                  | None \<Rightarrow> ''Execute '' @ name (tools ! i))),
          (''inputSchema'',
             Obj (obj_set (obj_set (own_props (zodToJsonSchema (inputSchema (tools ! i))))
                             ''type'' (Str ''object''))
                    ''properties''
                    (if truthy (js_get (zodToJsonSchema (inputSchema (tools ! i))) ''properties'')
                     then js_get (zodToJsonSchema (inputSchema (tools ! i))) ''properties''
                     else Obj [])))]"
  by (simp add: listTools_def Let_def)

lemma forced_object_schema:
  "Obj (obj_set (obj_set (own_props (zodToJsonSchema (ZodObject shape))) ''type'' (Str ''object''))
          ''properties''
          (if truthy (js_get (zodToJsonSchema (ZodObject shape)) ''properties'')
           then js_get (zodToJsonSchema (ZodObject shape)) ''properties'' else Obj []))
   = zodToJsonSchema (ZodObject shape)"
  by (simp split: prod.splits)

text \<open>
  C8 (as amended). The catalog has one entry per registered tool, in registration order.
  An entry carries the tool's name; its description when that is a non-empty string, and
  \<open>Execute <name>\<close> otherwise; and the translated input schema with \<open>type\<close> set to
  "object" and \<open>properties\<close> set to the translation's own properties when it has some, to
  the empty object otherwise, every other member being that of the translation. For an
  object schema this is the translation itself. After registering two tools with different
  names, such as greet and then calculate, the catalog lists them in that order.
\<close>

theorem listTools_catalog:
  "map (\<lambda>e. js_get e ''name'') (listTools tools) = map (\<lambda>t. Str (name t)) tools
   \<and> (\<forall>i < length tools.
        js_get (listTools tools ! i) ''description'' =
          Str (case description (tools ! i) of
                 Some d \<Rightarrow> if d \<noteq> [] then d else ''Execute '' @ name (tools ! i)
               | None \<Rightarrow> ''Execute '' @ name (tools ! i))
        \<and> js_get (js_get (listTools tools ! i) ''inputSchema'') ''type'' = Str ''object''
        \<and> js_get (js_get (listTools tools ! i) ''inputSchema'') ''properties'' =
            (if truthy (js_get (zodToJsonSchema (inputSchema (tools ! i))) ''properties'')
             then js_get (zodToJsonSchema (inputSchema (tools ! i))) ''properties'' else Obj [])
        \<and> (\<forall>k. k \<noteq> ''type'' \<and> k \<noteq> ''properties'' \<longrightarrow>
              js_get (js_get (listTools tools ! i) ''inputSchema'') k =
              js_get (zodToJsonSchema (inputSchema (tools ! i))) k)
        \<and> (\<forall>shape. inputSchema (tools ! i) = ZodObject shape \<longrightarrow>
              js_get (listTools tools ! i) ''inputSchema'' = zodToJsonSchema (ZodObject shape)))
   \<and> (name g \<noteq> name c \<longrightarrow>
        map (\<lambda>e. js_get e ''name'') (listTools (registered [g, c])) = [Str (name g), Str (name c)])"
proof -
  have names: "map (\<lambda>e. js_get e ''name'') (listTools tools) = map (\<lambda>t. Str (name t)) tools"
    by (rule listTools_names)
  have entry: "js_get (listTools tools ! i) ''description'' =
          Str (case description (tools ! i) of
                 Some d \<Rightarrow> if d \<noteq> [] then d else ''Execute '' @ name (tools ! i)
               | None \<Rightarrow> ''Execute '' @ name (tools ! i))
        \<and> js_get (js_get (listTools tools ! i) ''inputSchema'') ''type'' = Str ''object''
        \<and> js_get (js_get (listTools tools ! i) ''inputSchema'') ''properties'' =
            (if truthy (js_get (zodToJsonSchema (inputSchema (tools ! i))) ''properties'')
             then js_get (zodToJsonSchema (inputSchema (tools ! i))) ''properties'' else Obj [])
        \<and> (\<forall>k. k \<noteq> ''type'' \<and> k \<noteq> ''properties'' \<longrightarrow>
              js_get (js_get (listTools tools ! i) ''inputSchema'') k =
              js_get (zodToJsonSchema (inputSchema (tools ! i))) k)
        \<and> (\<forall>shape. inputSchema (tools ! i) = ZodObject shape \<longrightarrow>
              js_get (listTools tools ! i) ''inputSchema'' = zodToJsonSchema (ZodObject shape))"
    if i: "i < length tools" for i
  proof -
    obtain kvs where S: "zodToJsonSchema (inputSchema (tools ! i)) = Obj kvs"
      using zodToJsonSchema_Obj by blast
    have d: "js_get (listTools tools ! i) ''description'' =
          Str (case description (tools ! i) of
                 Some d \<Rightarrow> if d \<noteq> [] then d else ''Execute '' @ name (tools ! i)
               | None \<Rightarrow> ''Execute '' @ name (tools ! i))"
      by (simp add: listTools_nth [OF i])
    have s: "js_get (listTools tools ! i) ''inputSchema'' =
             Obj (obj_set (obj_set (own_props (zodToJsonSchema (inputSchema (tools ! i))))
                             ''type'' (Str ''object''))
                    ''properties''
                    (if truthy (js_get (zodToJsonSchema (inputSchema (tools ! i))) ''properties'')
                     then js_get (zodToJsonSchema (inputSchema (tools ! i))) ''properties''
                     else Obj []))"
      by (simp add: listTools_nth [OF i])
    have t: "js_get (js_get (listTools tools ! i) ''inputSchema'') ''type'' = Str ''object''"
      unfolding s by (simp add: map_of_obj_set)
    have p: "js_get (js_get (listTools tools ! i) ''inputSchema'') ''properties'' =
            (if truthy (js_get (zodToJsonSchema (inputSchema (tools ! i))) ''properties'')
             then js_get (zodToJsonSchema (inputSchema (tools ! i))) ''properties'' else Obj [])"
      unfolding s by (simp add: map_of_obj_set)
    have r: "\<forall>k. k \<noteq> ''type'' \<and> k \<noteq> ''properties'' \<longrightarrow>
              js_get (js_get (listTools tools ! i) ''inputSchema'') k =
              js_get (zodToJsonSchema (inputSchema (tools ! i))) k"
      unfolding s by (simp add: map_of_obj_set S)
    have z: "\<forall>shape. inputSchema (tools ! i) = ZodObject shape \<longrightarrow>
              js_get (listTools tools ! i) ''inputSchema'' = zodToJsonSchema (ZodObject shape)"
    proof (intro allI impI)
      fix shape
      assume a: "inputSchema (tools ! i) = ZodObject shape"
      show "js_get (listTools tools ! i) ''inputSchema'' = zodToJsonSchema (ZodObject shape)"
        unfolding s a by (rule forced_object_schema)
    qed
    from d t p r z show ?thesis by blast
  qed
  have two: "name g \<noteq> name c \<longrightarrow>
        map (\<lambda>e. js_get e ''name'') (listTools (registered [g, c])) = [Str (name g), Str (name c)]"
    by (simp add: listTools_names registered_def registerTool_def)
  from names entry two show ?thesis by blast
qed

theorem listTools_catalog_witness:
  "name greet \<noteq> name calculate
   \<and> map (\<lambda>e. js_get e ''name'') (listTools (registered [greet, calculate]))
       = [Str ''greet'', Str ''calculate'']
   \<and> (0::nat) < length [greet, calculate]
   \<and> js_get (listTools [greet, calculate] ! 0) ''description'' = Str ''Greet a user by name''
   \<and> js_get (listTools [greet, calculate] ! 0) ''inputSchema''
       = Obj [(''type'', Str ''object''),
              (''properties'', Obj [(''name'', Obj [(''type'', Str ''string'')]),
                                    (''formal'', Obj [(''type'', Str ''object'')])]),
              (''required'', Arr [Str ''name'', Str ''formal''])]"
  using listTools_catalog [of "[greet, calculate]" greet calculate]
  by (simp add: greet_def calculate_def listTools_def Let_def registered_def registerTool_def
        obj_assign_def)

text \<open>
  A tool with an empty description and an input schema that is not an object schema: its
  entry carries a generated description, and an input schema that has a \<open>properties\<close>
  member which the translation with \<open>type\<close> forced to "object" does not have.
\<close>

theorem listTools_defaults_counterexample:
  "description anyTool = Some []
   \<and> zodToJsonSchema (inputSchema anyTool) = Obj [(''type'', Str ''object'')]
   \<and> listTools [anyTool] =
       [Obj [(''name'', Str ''anyTool''),
             (''description'', Str ''Execute anyTool''),
             (''inputSchema'', Obj [(''type'', Str ''object''), (''properties'', Obj [])])]]"
  by (simp add: anyTool_def listTools_def Let_def)

section \<open>Properties of the call-tool request handler\<close>

lemma input_at_Cons:
  assumes "hook ctx data = Inr result"
  shows "input_at ctx (hook # hooks) data (Suc i) = input_at ctx hooks (replaced ''input'' data result) i"
proof (induction i)
  case 0
  show ?case using assms by simp
next
  case (Suc i)
  show ?case
    by (subst input_at.simps(2), unfold Suc.IH nth_Cons_Suc, subst input_at.simps(2), rule refl)
qed

lemma map_upt_shift: "map f [0..<Suc n] = f 0 # map (\<lambda>i. f (Suc i)) [0..<n]"
  by (simp add: map_upt_Suc del: upt_Suc)


lemma run_pre_hooks_all_return:
  "\<forall>i<length hooks. \<exists>r. (hooks ! i) ctx (input_at ctx hooks data i) = Inr r \<Longrightarrow>
   run_pre_hooks ctx hooks j data =
     (map (\<lambda>i. PreHookCall (j + i) (input_at ctx hooks data i)) [0..<length hooks],
      Inr (input_at ctx hooks data (length hooks)))"
proof (induction hooks arbitrary: j data)
  case Nil
  show ?case by simp
next
  case (Cons hook hooks)
  from Cons.prems have "\<exists>r. hook ctx data = Inr r" by fastforce
  then obtain result where r: "hook ctx data = Inr result" ..
  let ?next = "replaced ''input'' data result"
  have rest: "\<forall>i<length hooks. \<exists>r. (hooks ! i) ctx (input_at ctx hooks ?next i) = Inr r"
  proof (intro allI impI)
    fix i assume "i < length hooks"
    then have "Suc i < length (hook # hooks)" by simp
    with Cons.prems have "\<exists>r. ((hook # hooks) ! Suc i) ctx (input_at ctx (hook # hooks) data (Suc i)) = Inr r"
      by blast
    then show "\<exists>r. (hooks ! i) ctx (input_at ctx hooks ?next i) = Inr r"
      by (simp only: input_at_Cons [of hook ctx data result, OF r] nth_Cons_Suc)
  qed
  have ih: "run_pre_hooks ctx hooks (Suc j) ?next =
           (map (\<lambda>i. PreHookCall (Suc j + i) (input_at ctx hooks ?next i)) [0..<length hooks],
            Inr (input_at ctx hooks ?next (length hooks)))"
    using Cons.IH [of ?next "Suc j"] rest by blast
  show ?case
    unfolding length_Cons map_upt_shift
    using r ih
    by (simp del: input_at.simps(2) add: input_at_Cons [of hook ctx data result, OF r])
qed


lemma output_at_Cons:
  assumes "hook ctx input out = Inr result"
  shows "output_at ctx (hook # hooks) input out (Suc i) =
         output_at ctx hooks input (replaced ''output'' out result) i"
proof (induction i)
  case 0
  show ?case using assms by simp
next
  case (Suc i)
  show ?case
    by (subst output_at.simps(2), unfold Suc.IH nth_Cons_Suc, subst output_at.simps(2), rule refl)
qed

lemma run_pre_hooks_raise:
  "i < length hooks \<Longrightarrow>
   \<forall>j<i. \<exists>r. (hooks ! j) ctx (input_at ctx hooks data j) = Inr r \<Longrightarrow>
   (hooks ! i) ctx (input_at ctx hooks data i) = Inl f \<Longrightarrow>
   snd (run_pre_hooks ctx hooks k data) = Inl f"
proof (induction hooks arbitrary: i k data)
  case Nil
  then show ?case by simp
next
  case (Cons hook hooks)
  show ?case
  proof (cases i)
    case 0
    with Cons.prems(3) have "hook ctx data = Inl f" by simp
    then show ?thesis by simp
  next
    case (Suc i')
    with Cons.prems(2) have "\<exists>r. ((hook # hooks) ! 0) ctx (input_at ctx (hook # hooks) data 0) = Inr r"
      by blast
    then obtain result where r: "hook ctx data = Inr result" by auto
    let ?next = "replaced ''input'' data result"
    have len: "i' < length hooks" using Cons.prems(1) Suc by simp
    have ret: "\<forall>j<i'. \<exists>r. (hooks ! j) ctx (input_at ctx hooks ?next j) = Inr r"
    proof (intro allI impI)
      fix j assume "j < i'"
      then have "Suc j < i" using Suc by simp
      with Cons.prems(2)
      have "\<exists>r. ((hook # hooks) ! Suc j) ctx (input_at ctx (hook # hooks) data (Suc j)) = Inr r"
        by blast
      then show "\<exists>r. (hooks ! j) ctx (input_at ctx hooks ?next j) = Inr r"
        by (simp only: input_at_Cons [of hook ctx data result, OF r] nth_Cons_Suc)
    qed
    have "((hook # hooks) ! Suc i') ctx (input_at ctx (hook # hooks) data (Suc i')) = Inl f"
      using Cons.prems(3) Suc by simp
    then have raised: "(hooks ! i') ctx (input_at ctx hooks ?next i') = Inl f"
      by (simp only: input_at_Cons [of hook ctx data result, OF r] nth_Cons_Suc)
    have "snd (run_pre_hooks ctx hooks (Suc k) ?next) = Inl f"
      using Cons.IH len ret raised by blast
    with r show ?thesis by (auto split: prod.splits)
  qed
qed

lemma run_post_hooks_raise:
  "i < length hooks \<Longrightarrow>
   \<forall>j<i. \<exists>r. (hooks ! j) ctx input (output_at ctx hooks input out j) = Inr r \<Longrightarrow>
   (hooks ! i) ctx input (output_at ctx hooks input out i) = Inl f \<Longrightarrow>
   snd (run_post_hooks ctx hooks k input out) = Inl f"
proof (induction hooks arbitrary: i k out)
  case Nil
  then show ?case by simp
next
  case (Cons hook hooks)
  show ?case
  proof (cases i)
    case 0
    with Cons.prems(3) have "hook ctx input out = Inl f" by simp
    then show ?thesis by simp
  next
    case (Suc i')
    with Cons.prems(2)
    have "\<exists>r. ((hook # hooks) ! 0) ctx input (output_at ctx (hook # hooks) input out 0) = Inr r"
      by blast
    then obtain result where r: "hook ctx input out = Inr result" by auto
    let ?next = "replaced ''output'' out result"
    have len: "i' < length hooks" using Cons.prems(1) Suc by simp
    have ret: "\<forall>j<i'. \<exists>r. (hooks ! j) ctx input (output_at ctx hooks input ?next j) = Inr r"
    proof (intro allI impI)
      fix j assume "j < i'"
      then have "Suc j < i" using Suc by simp
      with Cons.prems(2)
      have "\<exists>r. ((hook # hooks) ! Suc j) ctx input (output_at ctx (hook # hooks) input out (Suc j)) = Inr r"
        by blast
      then show "\<exists>r. (hooks ! j) ctx input (output_at ctx hooks input ?next j) = Inr r"
        by (simp only: output_at_Cons [of hook ctx input out result, OF r] nth_Cons_Suc)
    qed
    have "((hook # hooks) ! Suc i') ctx input (output_at ctx (hook # hooks) input out (Suc i')) = Inl f"
      using Cons.prems(3) Suc by simp
    then have raised: "(hooks ! i') ctx input (output_at ctx hooks input ?next i') = Inl f"
      by (simp only: output_at_Cons [of hook ctx input out result, OF r] nth_Cons_Suc)
    have "snd (run_post_hooks ctx hooks (Suc k) input ?next) = Inl f"
      using Cons.IH len ret raised by blast
    with r show ?thesis by (auto split: prod.splits)
  qed
qed


text \<open>
  C3 (as amended). When the named tool is registered and parsing the arguments against its
  input schema throws a \<open>ZodError\<close>, the handler returns the error result whose text is the
  serialisation of \<open>{error: 'Input validation failed', details: d}\<close>, where \<open>d\<close> is one
  string: the issues in order, each rendered as its path joined with \<open>.\<close>, then \<open>: \<close>, then
  its message, the renderings joined with \<open>, \<close>. No hook and no handler is invoked.
\<close>

theorem callTool_input_validation_failed:
  assumes "find (\<lambda>t. name t = params_name req) tools = Some tool"
    and "parse (inputSchema tool) (params_arguments req) = ThrewZodError issues"
  shows "callTool parse now tools req =
           ([], Inr \<lparr>stringified = Obj [(''error'', Str ''Input validation failed''),
                                        (''details'', Str (formatZodError issues))],
                     isError = Some True\<rparr>)
         \<and> formatZodError issues =
             join '', '' (map (\<lambda>issue. join ''.'' (map path_key_String (path issue))
                                          @ '': '' @ message issue) issues)"
  using assms
  by (simp add: callTool_def callTool_try_def validateWithSchema_def error_result_def Let_def
        formatZodError_def)

theorem callTool_input_validation_failed_witness:
  "find (\<lambda>t. name t = params_name (sample_request ''calculate''
            (Obj [(''operation'', Str ''divide''), (''a'', Str ''ten'')])))
        (registered [greet, calculate]) = Some calculate
   \<and> sample_parse (inputSchema calculate)
        (params_arguments (sample_request ''calculate''
            (Obj [(''operation'', Str ''divide''), (''a'', Str ''ten'')])))
      = ThrewZodError [\<lparr>path = [Key ''a''], message = ''Expected number, received string''\<rparr>,
                       \<lparr>path = [Key ''b''], message = ''Required''\<rparr>]
   \<and> callTool sample_parse 0 (registered [greet, calculate])
        (sample_request ''calculate'' (Obj [(''operation'', Str ''divide''), (''a'', Str ''ten'')]))
      = ([], Inr \<lparr>stringified =
                    Obj [(''error'', Str ''Input validation failed''),
                         (''details'', Str ''a: Expected number, received string, b: Required'')],
                  isError = Some True\<rparr>)"
  using callTool_input_validation_failed
    [of "sample_request ''calculate'' (Obj [(''operation'', Str ''divide''), (''a'', Str ''ten'')])"
        "registered [greet, calculate]" calculate sample_parse
        "[\<lparr>path = [Key ''a''], message = ''Expected number, received string''\<rparr>,
          \<lparr>path = [Key ''b''], message = ''Required''\<rparr>]" 0]
  by (simp add: registered_greet_calculate sample_request_def formatZodError_def)
     (simp add: greet_def calculate_def)

text \<open>
  The details do not carry the structured issue list. The one issue of a missing property
  named \<open>a.b\<close> is sent as the text \<open>a.b: Required\<close>, which is also the rendering of an
  issue at the path \<open>a\<close>, \<open>b\<close>; and two issues render to the text of a single one.
\<close>

theorem input_validation_details_flattened_counterexample:
  "sample_parse (inputSchema dotted) (Obj []) =
     ThrewZodError [\<lparr>path = [Key ''a.b''], message = ''Required''\<rparr>]
   \<and> callTool sample_parse 0 [dotted] (sample_request ''dotted'' (Obj [])) =
       ([], Inr \<lparr>stringified = Obj [(''error'', Str ''Input validation failed''),
                                    (''details'', Str ''a.b: Required'')],
                 isError = Some True\<rparr>)
   \<and> formatZodError [\<lparr>path = [Key ''a'', Key ''b''], message = ''Required''\<rparr>] = ''a.b: Required''
   \<and> formatZodError [\<lparr>path = [], message = ''x''\<rparr>, \<lparr>path = [], message = ''y''\<rparr>]
       = formatZodError [\<lparr>path = [], message = ''x, : y''\<rparr>]"
  by (simp add: dotted_def sample_request_def callTool_def callTool_try_def validateWithSchema_def
        error_result_def formatZodError_def Let_def)

text \<open>
  C1. A call whose handler throws an object that has no string conversion, as
  \<open>throw Object.create(null)\<close> does: the \<open>catch\<close> block evaluates \<open>String(error)\<close>, which
  throws a \<open>TypeError\<close>, and this exception leaves the request handler instead of an error
  result being returned.
\<close>

theorem callTool_rejects_when_String_throws:
  "callTool sample_parse 0 [greet, fragile] (sample_request ''fragile'' (Obj [])) =
     ([HandlerCall (Obj [])], Inl (JsError ''Cannot convert object to primitive value''))"
  by (simp add: greet_def fragile_def sample_request_def callTool_def callTool_try_def
        validateWithSchema_def hooks_of_def Let_def)

text \<open>
  What the \<open>catch\<close> block does with a fault whose message can be computed. For a registered
  tool and valid arguments, let \<open>f\<close> be thrown by the first pre-handler hook that throws
  (every hook before it having returned), or by the handler after all pre-handler hooks
  returned, or, the handler's output being valid, by the first post-handler hook that
  throws. Then the request handler returns the result with \<open>isError = true\<close> whose text is
  the serialisation of \<open>{error: 'Tool execution failed', message: m}\<close>, \<open>m\<close> being the
  message of \<open>f\<close>.
\<close>

theorem callTool_fault_becomes_error_result:
  assumes found: "find (\<lambda>t. name t = params_name req) tools = Some tool"
    and valid: "parse (inputSchema tool) (params_arguments req) = Parsed data"
    and ctx: "ctx = createContext now (requestId_of (params_requestId req))"
    and pre: "pre = hooks_of (preHandler tool)"
    and post: "post = hooks_of (postHandler tool)"
    and msg: "fault_message f = Inr m"
    and raised:
      "(\<exists>i<length pre. (\<forall>j<i. \<exists>r. (pre ! j) ctx (input_at ctx pre data j) = Inr r)
                        \<and> (pre ! i) ctx (input_at ctx pre data i) = Inl f)
       \<or> ((\<forall>j<length pre. \<exists>r. (pre ! j) ctx (input_at ctx pre data j) = Inr r)
           \<and> (handler tool (input_at ctx pre data (length pre)) ctx = Inl f
               \<or> (\<exists>returned validated.
                     handler tool (input_at ctx pre data (length pre)) ctx = Inr returned
                     \<and> parse (outputSchema tool) returned = Parsed validated
                     \<and> (\<exists>i<length post.
                           (\<forall>j<i. \<exists>r. (post ! j) ctx (input_at ctx pre data (length pre))
                                         (output_at ctx post (input_at ctx pre data (length pre))
                                            validated j) = Inr r)
                           \<and> (post ! i) ctx (input_at ctx pre data (length pre))
                                 (output_at ctx post (input_at ctx pre data (length pre))
                                    validated i) = Inl f))))"
  shows "snd (callTool parse now tools req) =
           Inr \<lparr>stringified = Obj [(''error'', Str ''Tool execution failed''), (''message'', Str m)],
                isError = Some True\<rparr>"
proof -
  let ?input = "input_at ctx pre data (length pre)"
  have thrown: "snd (callTool_try parse now tool req) = Inl f"
    using raised
  proof (elim disjE exE conjE)
    fix i
    assume "i < length pre"
      and "\<forall>j<i. \<exists>r. (pre ! j) ctx (input_at ctx pre data j) = Inr r"
      and "(pre ! i) ctx (input_at ctx pre data i) = Inl f"
    then have "snd (run_pre_hooks ctx pre 0 data) = Inl f"
      by (rule run_pre_hooks_raise)
    then show ?thesis
      using valid
      by (auto simp: callTool_try_def validateWithSchema_def Let_def ctx [symmetric] pre [symmetric]
               split: prod.splits)
  next
    assume "\<forall>j<length pre. \<exists>r. (pre ! j) ctx (input_at ctx pre data j) = Inr r"
      and h: "handler tool ?input ctx = Inl f"
    with run_pre_hooks_all_return [of pre ctx data 0]
    have "snd (run_pre_hooks ctx pre 0 data) = Inr ?input" by simp
    then show ?thesis
      using valid h
      by (auto simp: callTool_try_def validateWithSchema_def Let_def ctx [symmetric] pre [symmetric]
               split: prod.splits)
  next
    fix returned validated i
    assume "\<forall>j<length pre. \<exists>r. (pre ! j) ctx (input_at ctx pre data j) = Inr r"
      and h: "handler tool ?input ctx = Inr returned"
      and v: "parse (outputSchema tool) returned = Parsed validated"
      and "i < length post"
      and "\<forall>j<i. \<exists>r. (post ! j) ctx ?input (output_at ctx post ?input validated j) = Inr r"
      and "(post ! i) ctx ?input (output_at ctx post ?input validated i) = Inl f"
    then have p: "snd (run_post_hooks ctx post 0 ?input validated) = Inl f"
      using run_post_hooks_raise [of i post ctx ?input validated f 0] by blast
    from \<open>\<forall>j<length pre. \<exists>r. (pre ! j) ctx (input_at ctx pre data j) = Inr r\<close>
      run_pre_hooks_all_return [of pre ctx data 0]
    have "snd (run_pre_hooks ctx pre 0 data) = Inr ?input" by simp
    then show ?thesis
      using valid h v p
      by (auto simp: callTool_try_def validateWithSchema_def Let_def ctx [symmetric] pre [symmetric]
               post [symmetric] split: prod.splits)
  qed
  then show ?thesis
    using found msg
    by (auto simp: callTool_def error_result_def split: prod.splits sum.splits)
qed

text \<open>
  Two calls of the sample tool \<open>audited\<close>, whose hook lists have two entries each. On long
  data the second pre-handler hook throws an \<open>Error\<close>; on short data both pre-handler hooks
  and the handler return, the first post-handler hook replaces the output, and the second
  throws a string.
\<close>

theorem callTool_fault_becomes_error_result_example:
  "snd (callTool sample_parse 0 [audited] (sample_request ''audited'' (Obj [(''data'', Str ''0123456789'')])))
     = Inr \<lparr>stringified = Obj [(''error'', Str ''Tool execution failed''),
                               (''message'', Str ''Input too large'')],
            isError = Some True\<rparr>
   \<and> snd (callTool sample_parse 0 [audited] (sample_request ''audited'' (Obj [(''data'', Str ''0123'')])))
     = Inr \<lparr>stringified = Obj [(''error'', Str ''Tool execution failed''),
                               (''message'', Str ''audit sink down'')],
            isError = Some True\<rparr>"
proof -
  let ?ctx = "\<lparr>request = None\<rparr>"
  let ?long = "Obj [(''data'', Str ''0123456789'')]"
  let ?short = "Obj [(''data'', Str ''0123'')]"
  let ?pre = "[silent_hook, size_hook]"
  let ?post = "[stamp_post_hook, failing_post_hook]"
  let ?out = "Obj [(''result'', Str ''0123'')]"
  have found: "find (\<lambda>t. name t = params_name (sample_request ''audited'' d)) [audited] = Some audited"
    for d by (simp add: sample_request_def audited_def)
  have ctx: "?ctx = createContext 0 (requestId_of (params_requestId (sample_request ''audited'' d)))"
    for d by (simp add: sample_request_def createContext_def requestId_of_def)
  have pre: "?pre = hooks_of (preHandler audited)"
    by (simp add: audited_def hooks_of_def)
  have post: "?post = hooks_of (postHandler audited)"
    by (simp add: audited_def hooks_of_def)
  have valid_long: "sample_parse (inputSchema audited)
      (params_arguments (sample_request ''audited'' ?long)) = Parsed ?long"
    by (simp add: sample_request_def audited_def)
  have valid_short: "sample_parse (inputSchema audited)
      (params_arguments (sample_request ''audited'' ?short)) = Parsed ?short"
    by (simp add: sample_request_def audited_def)
  have silent: "silent_hook ?ctx d = Inr Undefined" for d
    by (simp add: silent_hook_def)
  have in1: "input_at ?ctx ?pre d (Suc 0) = d" for d
    by (simp add: silent replaced_def)
  have size_long: "size_hook ?ctx ?long = Inl (JsError ''Input too large'')"
    by (simp add: size_hook_def)
  have size_short: "size_hook ?ctx ?short = Inr Undefined"
    by (simp add: size_hook_def)
  have in2: "input_at ?ctx ?pre ?short (Suc (Suc 0)) = ?short"
    by (subst input_at.simps(2)) (simp add: in1 size_short replaced_def del: input_at.simps)
  have long_raised:
    "\<exists>i<length ?pre. (\<forall>j<i. \<exists>r. (?pre ! j) ?ctx (input_at ?ctx ?pre ?long j) = Inr r)
                       \<and> (?pre ! i) ?ctx (input_at ?ctx ?pre ?long i) = Inl (JsError ''Input too large'')"
  proof (intro exI [of _ "Suc 0"] conjI allI impI)
    show "Suc 0 < length ?pre" by simp
    show "(?pre ! Suc 0) ?ctx (input_at ?ctx ?pre ?long (Suc 0)) = Inl (JsError ''Input too large'')"
      by (simp only: in1 nth_Cons_Suc nth_Cons_0 size_long)
    fix j :: nat
    assume "j < Suc 0"
    then have "j = 0" by simp
    then show "\<exists>r. (?pre ! j) ?ctx (input_at ?ctx ?pre ?long j) = Inr r"
      by (simp add: silent)
  qed
  have a: "snd (callTool sample_parse 0 [audited] (sample_request ''audited'' ?long))
     = Inr \<lparr>stringified = Obj [(''error'', Str ''Tool execution failed''),
                               (''message'', Str ''Input too large'')],
            isError = Some True\<rparr>"
    by (rule callTool_fault_becomes_error_result
          [of "sample_request ''audited'' ?long" "[audited]" audited sample_parse ?long ?ctx 0
              ?pre ?post "JsError ''Input too large''" "''Input too large''",
           OF found valid_long ctx pre post _ disjI1 [OF long_raised]])
       simp
  have pre_return: "\<forall>j<length ?pre. \<exists>r. (?pre ! j) ?ctx (input_at ?ctx ?pre ?short j) = Inr r"
  proof (intro allI impI)
    fix j :: nat
    assume "j < length ?pre"
    then have "j = 0 \<or> j = Suc 0" by auto
    then show "\<exists>r. (?pre ! j) ?ctx (input_at ?ctx ?pre ?short j) = Inr r"
      using silent [of ?short] size_short in1 [of ?short] by auto
  qed
  have len: "length ?pre = Suc (Suc 0)" by simp
  have handled: "handler audited (input_at ?ctx ?pre ?short (length ?pre)) ?ctx = Inr ?out"
    unfolding len in2 by (simp add: audited_def echo_handler_def)
  have valid_out: "sample_parse (outputSchema audited) ?out = Parsed ?out"
    by (simp add: audited_def)
  have stamp: "stamp_post_hook ?ctx ?short ?out =
                 Inr (Obj [(''output'', Obj [(''result'', Str ''0123''), (''audited'', Bool True)])])"
    by (simp add: stamp_post_hook_def)
  have out1: "output_at ?ctx ?post ?short ?out (Suc 0) =
                Obj [(''result'', Str ''0123''), (''audited'', Bool True)]"
    by (simp add: stamp replaced_def)
  have short_raised:
    "\<exists>i<length ?post.
       (\<forall>j<i. \<exists>r. (?post ! j) ?ctx (input_at ?ctx ?pre ?short (length ?pre))
                     (output_at ?ctx ?post (input_at ?ctx ?pre ?short (length ?pre)) ?out j) = Inr r)
       \<and> (?post ! i) ?ctx (input_at ?ctx ?pre ?short (length ?pre))
             (output_at ?ctx ?post (input_at ?ctx ?pre ?short (length ?pre)) ?out i)
           = Inl (Thrown (Some ''audit sink down''))"
    unfolding len in2
  proof (intro exI [of _ "Suc 0"] conjI allI impI)
    show "Suc 0 < length ?post" by simp
    show "(?post ! Suc 0) ?ctx ?short (output_at ?ctx ?post ?short ?out (Suc 0))
            = Inl (Thrown (Some ''audit sink down''))"
      by (simp only: nth_Cons_Suc nth_Cons_0 failing_post_hook_def)
    fix j :: nat
    assume "j < Suc 0"
    then have "j = 0" by simp
    then show "\<exists>r. (?post ! j) ?ctx ?short (output_at ?ctx ?post ?short ?out j) = Inr r"
      by (simp add: stamp)
  qed
  have after:
    "\<exists>returned validated.
       handler audited (input_at ?ctx ?pre ?short (length ?pre)) ?ctx = Inr returned
       \<and> sample_parse (outputSchema audited) returned = Parsed validated
       \<and> (\<exists>i<length ?post.
             (\<forall>j<i. \<exists>r. (?post ! j) ?ctx (input_at ?ctx ?pre ?short (length ?pre))
                           (output_at ?ctx ?post (input_at ?ctx ?pre ?short (length ?pre))
                              validated j) = Inr r)
             \<and> (?post ! i) ?ctx (input_at ?ctx ?pre ?short (length ?pre))
                   (output_at ?ctx ?post (input_at ?ctx ?pre ?short (length ?pre)) validated i)
                 = Inl (Thrown (Some ''audit sink down'')))"
    using handled valid_out short_raised by blast
  have b: "snd (callTool sample_parse 0 [audited] (sample_request ''audited'' ?short))
     = Inr \<lparr>stringified = Obj [(''error'', Str ''Tool execution failed''),
                               (''message'', Str ''audit sink down'')],
            isError = Some True\<rparr>"
    by (rule callTool_fault_becomes_error_result
          [of "sample_request ''audited'' ?short" "[audited]" audited sample_parse ?short ?ctx 0
              ?pre ?post "Thrown (Some ''audit sink down'')" "''audit sink down''",
           OF found valid_short ctx pre post _ disjI2 [OF conjI [OF pre_return disjI2 [OF after]]]])
       simp
  from a b show ?thesis by simp
qed




end
